theory Spec2Isabelle
  imports Complex_Main
begin

section \<open>Python values shared by the modules\<close>

text \<open>
  Exceptions are values. A function that can raise returns a pair: the raised exception
  (\<open>Inl\<close>) or the returned value (\<open>Inr\<close>), and the object state at that moment, so that
  the state left behind by a raise can be inspected.
\<close>

datatype error =
    ValueError string
  | TypeError string
  | KeyError string
  | IndexError string
  | AttributeError string
  | ConnectionError string
  | TimeoutError string
  | NotImplementedError string
  | ModuleNotFoundError string
  | ArgumentError string
  | UnicodeEncodeError
  | UnicodeDecodeError
  | Unmodelled string

text \<open>
  \<open>Unmodelled\<close> is no Python exception: it marks a command line whose treatment by the
  parser library this development does not describe (see \<open>parse_args\<close>).
\<close>

text \<open>The bytes \<open>\r\n\<close>.\<close>

definition CRLF :: string where
  "CRLF = [CHR 0x0D, CHR 0x0A]"

text \<open>A string that the ASCII codec encodes and decodes: every character is below 128.\<close>

definition ascii :: "string \<Rightarrow> bool" where
  "ascii s = list_all (\<lambda>c. (of_char c :: nat) < 128) s"

text \<open>\<open>str.split(sep)\<close> for a separator of one character: never empty, \<open>''''\<close> gives \<open>['''']\<close>.\<close>

fun split_py :: "char \<Rightarrow> string \<Rightarrow> string list" where
  "split_py sep [] = [[]]"
| "split_py sep (c # cs) =
     (if c = sep then [] # split_py sep cs
      else (case split_py sep cs of
              [] \<Rightarrow> [[c]]
            | w # ws \<Rightarrow> (c # w) # ws))"

text \<open>\<open>str(n)\<close> for an int: decimal digits, a leading minus sign when negative.\<close>

fun str_nat :: "nat \<Rightarrow> string" where
  "str_nat n =
     (if n < 10 then [char_of (48 + n)]
      else str_nat (n div 10) @ [char_of (48 + n mod 10)])"

declare str_nat.simps [simp del]

definition str_int :: "int \<Rightarrow> string" where
  "str_int i = (if i < 0 then CHR ''-'' # str_nat (nat (- i)) else str_nat (nat i))"

section \<open>ArduinoSerial.py\<close>

text \<open>
  The serial port is the pyserial object \<open>self.serial\<close>. Of it the model keeps the writes made
  so far (\<open>tx\<close>, one entry per \<open>write\<close> call) and what the coming \<open>read_until\<close> calls will
  return (\<open>rx\<close>, one entry per call): the bytes up to and including \<open>\r\n\<close> when the peer
  answered in time, and the bytes that had arrived when the timeout expired otherwise
  (nothing at all when \<open>rx\<close> is exhausted).
\<close>

record link =
  compatible_with_AS :: bool
  tx :: "string list"
  rx :: "string list"

text \<open>What \<open>ask\<close> hands back: the field list, \<open>None\<close>, or an exception instance returned as a value.\<close>

datatype ask_value =
    Info "string list"
  | NoValue
  | ExcInstance error

definition serial_read_until :: "link \<Rightarrow> string \<times> link" where
  "serial_read_until l =
     (case rx l of
        [] \<Rightarrow> ([], l)
      | r # rs \<Rightarrow> (r, l\<lparr>rx := rs\<rparr>))"

text \<open>\<open>send\<close>: \<open>self.serial.write(bytes(string + line_ending, 'ASCII'))\<close>.\<close>

definition send :: "string \<Rightarrow> string \<Rightarrow> link \<Rightarrow> (error + unit) \<times> link" where
  "send string line_ending l =
     (if ascii (string @ line_ending)
      then (Inr (), l\<lparr>tx := tx l @ [string @ line_ending]\<rparr>)
      else (Inl UnicodeEncodeError, l))"

text \<open>
  \<open>read_line\<close>: the line without its \<open>\r\n\<close> when the bytes read end with it; the function
  falls off its end, returning \<open>None\<close>, when they do not.
\<close>

definition read_line :: "link \<Rightarrow> (error + string option) \<times> link" where
  "read_line l =
     (case serial_read_until l of
        (raw, l') \<Rightarrow>
          if \<not> ascii raw then (Inl UnicodeDecodeError, l')
          else if drop (length raw - 2) raw = CRLF
          then (Inr (Some (take (length raw - 2) raw)), l')
          else (Inr None, l'))"

definition ask :: "string \<Rightarrow> int \<Rightarrow> string \<Rightarrow> link \<Rightarrow> (error + ask_value) \<times> link" where
  "ask msg data_num_expected line_ending l =
     (if \<not> compatible_with_AS l
      then (Inr (ExcInstance (NotImplementedError
              ''Arduino isn't compatible with AS's special methods.'')), l)
      else
        (case send msg line_ending l of
           (Inl e, l1) \<Rightarrow> (Inl e, l1)
         | (Inr u, l1) \<Rightarrow>
             (case read_line l1 of
                (Inl e, l2) \<Rightarrow> (Inl e, l2)
              | (Inr (Some ans), l2) \<Rightarrow>
                  (let info = split_py CHR '';'' ans in
                   if length info \<ge> 2 \<and> info ! 0 = ''ERROR''
                   then (Inl (ConnectionError (''Arduino returned error : '' @ info ! 1)), l2)
                   else if int (length info) = data_num_expected
                   then (Inr (Info info), l2)
                   else (Inl (ValueError (''Invalid value received from arduino: '' @ ans)), l2))
              | (Inr None, l2) \<Rightarrow>
                  if data_num_expected > 0
                  then (Inl (TimeoutError ''Arduino didn't return anything in time''), l2)
                  else (Inr NoValue, l2))))"

text \<open>
  The constructor: the flag is stored as given; with \<open>programmed_for_as\<close> the handshake
  follows (wait for \<open>CONNECT\<close>, send \<open>1\<close>, wait for \<open>READY\<close>). The argument is the
  freshly opened port.
\<close>

definition ArduinoSerial_init :: "bool \<Rightarrow> string list \<Rightarrow> error + link" where
  "ArduinoSerial_init programmed_for_as incoming =
     (let l = \<lparr>compatible_with_AS = programmed_for_as, tx = [], rx = incoming\<rparr> in
      if \<not> programmed_for_as then Inr l
      else
        (case read_line l of
           (Inl e, l1) \<Rightarrow> Inl e
         | (Inr r1, l1) \<Rightarrow>
             if r1 \<noteq> Some ''CONNECT'' then Inl (ConnectionError ''failed to connect to Arduino'')
             else
               (case send ''1'' [] l1 of
                  (Inl e, l2) \<Rightarrow> Inl e
                | (Inr u, l2) \<Rightarrow>
                    (case read_line l2 of
                       (Inl e, l3) \<Rightarrow> Inl e
                     | (Inr r2, l3) \<Rightarrow>
                         if r2 \<noteq> Some ''READY'' then Inl (ConnectionError ''Arduino wasn't ready'')
                         else Inr l3))))"

text \<open>The peer sends no complete line before the timeout of the next read.\<close>

definition no_response :: "link \<Rightarrow> bool" where
  "no_response l =
     (case rx l of
        [] \<Rightarrow> True
      | r # rs \<Rightarrow> ascii r \<and> drop (length r - 2) r \<noteq> CRLF)"

section \<open>CentralUnit.py: the object\<close>

datatype shutters = SHUTTERS_OPENED | SHUTTERS_CLOSED

datatype day_moment = PLAIN_DAY | PLAIN_NIGHT

definition USER_MODE_AUTO :: int where "USER_MODE_AUTO = 1"
definition USER_MODE_OPEN :: int where "USER_MODE_OPEN = 2"
definition USER_MODE_CLOSE :: int where "USER_MODE_CLOSE = 3"

definition ARDUINO_OPEN_SHUTTERS :: int where "ARDUINO_OPEN_SHUTTERS = 8"
definition ARDUINO_CLOSE_SHUTTERS :: int where "ARDUINO_CLOSE_SHUTTERS = 16"
definition ARDUINO_GET_ENV :: int where "ARDUINO_GET_ENV = 32"

text \<open>
  The dict \<open>self.__config\<close>. It is created with these eight keys, and the only assignment to
  it, in \<open>_cmd_set_settings\<close>, uses the destinations of the \<open>set_settings\<close> options, which are
  the same eight names, with values that went through the option's type function.
\<close>

record config =
  user_mode :: int
  time_check :: int
  sunrise_hour :: int
  sunset_hour :: int
  low_light_threshold :: int
  low_temp_threshold :: int
  high_temp_threshold :: int
  adapt_with_env_in_plain_day :: bool

text \<open>
  The attributes of a CentralUnit. Inside the class body \<open>self.__last_closed\<close> is the
  attribute \<open>_CentralUnit__last_closed\<close> (\<open>priv_last_closed\<close> here) and \<open>self._last_closed\<close>
  is another attribute, which exists only once something has assigned it: \<open>None\<close> stands
  for its absence. \<open>logged\<close> holds the calls made to \<open>self._log_fn\<close>, oldest first, as
  (message, source, log type).
\<close>

record central_unit =
  loop_flag :: bool
  priv_last_closed :: real
  last_closed :: "real option"
  shutters_state :: shutters
  config :: config
  last_check :: real
  arduino :: link
  logged :: "(string \<times> string \<times> string) list"

text \<open>
  What the interpreter and the clock supply: \<open>float(s)\<close> (\<open>None\<close> when it raises
  ValueError), the text an f-string gives a float, and the clock readings of one cycle,
  one field per place where the source reads the clock.
\<close>

record builtins =
  float_of :: "string \<Rightarrow> real option"
  str_float :: "real \<Rightarrow> string"

record clock =
  tm_hour :: int
  daylight :: int
  t_elapsed :: real
  t_hysteresis :: real
  t_close :: real
  t_checked :: real

definition log_fn :: "string \<Rightarrow> string \<Rightarrow> string \<Rightarrow> central_unit \<Rightarrow> central_unit" where
  "log_fn msg source log_type s = s\<lparr>logged := logged s @ [(msg, source, log_type)]\<rparr>"

definition default_config :: config where
  "default_config =
     \<lparr>user_mode = USER_MODE_AUTO, time_check = 600, sunrise_hour = 7, sunset_hour = 19,
      low_light_threshold = 100, low_temp_threshold = 0, high_temp_threshold = 30,
      adapt_with_env_in_plain_day = True\<rparr>"

definition config_keys :: "string list" where
  "config_keys =
     [''user_mode'', ''time_check'', ''sunrise_hour'', ''sunset_hour'', ''low_light_threshold'',
      ''low_temp_threshold'', ''high_temp_threshold'', ''adapt_with_env_in_plain_day'']"

section \<open>CentralUnit.py: shutters\<close>

definition get_day_time :: "int \<Rightarrow> real \<Rightarrow> central_unit \<Rightarrow> day_moment option" where
  "get_day_time hour lum s =
     (let sunrise = sunrise_hour (config s);
          sunset = sunset_hour (config s)
      in if hour > sunset \<or> hour < sunrise then Some PLAIN_NIGHT
         else if sunset > hour \<and> hour > sunrise then Some PLAIN_DAY
         else
           (let low_lum = (lum \<le> real_of_int (low_light_threshold (config s)))
            in if hour = sunrise
               then (if low_lum \<and> shutters_state s = SHUTTERS_CLOSED
                     then Some PLAIN_NIGHT else Some PLAIN_DAY)
               else if hour = sunset
               then (if \<not> low_lum \<and> shutters_state s = SHUTTERS_OPENED
                     then Some PLAIN_DAY else Some PLAIN_NIGHT)
               else None))"

definition close_shutters_if_opened :: "real \<Rightarrow> central_unit \<Rightarrow> (error + unit) \<times> central_unit" where
  "close_shutters_if_opened now s =
     (if shutters_state s \<noteq> SHUTTERS_CLOSED
      then
        (let s1 = log_fn ''Closing shutters'' ''core/shutters'' ''status'' s
         in case ask (str_int ARDUINO_CLOSE_SHUTTERS) 0 [] (arduino s1) of
              (Inl e, a) \<Rightarrow> (Inl e, s1\<lparr>arduino := a\<rparr>)
            | (Inr v, a) \<Rightarrow>
                (Inr (), log_fn ''Done closing shutters'' ''core/shutters'' ''status''
                           (s1\<lparr>arduino := a, shutters_state := SHUTTERS_CLOSED,
                              last_closed := Some now\<rparr>)))
      else (Inr (), log_fn ''Shutters are already closed'' ''core/shutters'' ''debug'' s))"

definition open_shutters_if_closed :: "central_unit \<Rightarrow> (error + unit) \<times> central_unit" where
  "open_shutters_if_closed s =
     (if shutters_state s \<noteq> SHUTTERS_OPENED
      then
        (let s1 = log_fn ''Opening shutters'' ''core/shutters'' ''status'' s
         in case ask (str_int ARDUINO_OPEN_SHUTTERS) 0 [] (arduino s1) of
              (Inl e, a) \<Rightarrow> (Inl e, s1\<lparr>arduino := a\<rparr>)
            | (Inr v, a) \<Rightarrow>
                (Inr (), log_fn ''Done opening shutters'' ''core/shutters'' ''status''
                           (s1\<lparr>arduino := a, shutters_state := SHUTTERS_OPENED\<rparr>)))
      else (Inr (), log_fn ''Shutters are already opened'' ''core/shutters'' ''debug'' s))"

text \<open>The two characters the source file has between the temperature and the letter C, in UTF-8.\<close>

definition degree_sign :: string where
  "degree_sign = [CHR 0xC3, CHR 0x82, CHR 0xC2, CHR 0xB0]"

text \<open>The debug line that \<open>_automatic_shutters\<close> logs before it decides.\<close>

definition report_cycle :: "builtins \<Rightarrow> clock \<Rightarrow> real \<Rightarrow> real \<Rightarrow> central_unit \<Rightarrow> central_unit" where
  "report_cycle py clk temp lum s =
     log_fn (str_float py temp @ degree_sign @ ''C, '' @ str_float py lum @ ''lux, ''
               @ str_int (tm_hour clk) @ ''th hour, ''
               @ (if get_day_time (tm_hour clk) lum s = Some PLAIN_DAY
                  then ''plain day'' else ''plain night''))
       ''core/shutters'' ''debug'' s"

text \<open>
  \<open>_automatic_shutters\<close>. Python's \<open>or\<close> evaluates its operands from the left and stops at
  the first true one, so \<open>self._last_closed\<close> is read only when the two tests before it
  are false; reading it while the attribute is absent raises AttributeError.
\<close>

definition automatic_shutters ::
    "builtins \<Rightarrow> clock \<Rightarrow> real \<Rightarrow> real \<Rightarrow> central_unit \<Rightarrow> (error + unit) \<times> central_unit" where
  "automatic_shutters py clk temp lum s =
     (let hour = tm_hour clk;
          day_moment = get_day_time hour lum s;
          s1 = report_cycle py clk temp lum s
      in if day_moment = Some PLAIN_NIGHT then close_shutters_if_opened (t_close clk) s1
         else if adapt_with_env_in_plain_day (config s1) \<and>
                 ((temp < real_of_int (low_temp_threshold (config s1)) \<and>
                   lum < real_of_int (low_light_threshold (config s1))) \<or>
                  (temp > real_of_int (high_temp_threshold (config s1)) \<and>
                   \<bar>hour - (13 + daylight clk)\<bar> \<le> 4))
         then close_shutters_if_opened (t_close clk) s1
         else
           (case last_closed s1 of
              None \<Rightarrow> (Inl (AttributeError ''_last_closed''), s1)
            | Some t \<Rightarrow>
                if t > t_hysteresis clk - 3600
                then close_shutters_if_opened (t_close clk) s1
                else open_shutters_if_closed s1))"

definition check_luminosity_and_temp ::
    "builtins \<Rightarrow> central_unit \<Rightarrow> (error + real \<times> real) \<times> central_unit" where
  "check_luminosity_and_temp py s =
     (case ask (str_int ARDUINO_GET_ENV) 2 [] (arduino s) of
        (Inl e, a) \<Rightarrow> (Inl e, s\<lparr>arduino := a\<rparr>)
      | (Inr v, a) \<Rightarrow>
          (let s1 = s\<lparr>arduino := a\<rparr>
           in case v of
                NoValue \<Rightarrow> (Inl (TypeError ''object is not subscriptable''), s1)
              | ExcInstance x \<Rightarrow> (Inl (TypeError ''object is not subscriptable''), s1)
              | Info ans \<Rightarrow>
                  (case ans of
                     [] \<Rightarrow> (Inl (IndexError ''list index out of range''), s1)
                   | a0 # rest \<Rightarrow>
                       (case float_of py a0 of
                          None \<Rightarrow> (Inl (ValueError ''could not convert string to float''), s1)
                        | Some temp \<Rightarrow>
                            if - 40 \<le> temp \<and> temp \<le> 60
                            then (Inl (ValueError ''Arduino returned an invalid temperature.''), s1)
                            else
                              (case rest of
                                 [] \<Rightarrow> (Inl (IndexError ''list index out of range''), s1)
                               | a1 # rest' \<Rightarrow>
                                   (case float_of py a1 of
                                      None \<Rightarrow>
                                        (Inl (ValueError ''could not convert string to float''), s1)
                                    | Some lum \<Rightarrow>
                                        if lum < 0
                                        then (Inl (ValueError
                                                ''Arduino returned an invalid luminosity.''), s1)
                                        else (Inr (temp, lum), s1)))))))"

definition update_shutters ::
    "builtins \<Rightarrow> clock \<Rightarrow> central_unit \<Rightarrow> (error + unit) \<times> central_unit" where
  "update_shutters py clk s =
     (if user_mode (config s) = USER_MODE_OPEN then open_shutters_if_closed s
      else if user_mode (config s) = USER_MODE_CLOSE
      then close_shutters_if_opened (t_close clk) s
      else if user_mode (config s) = USER_MODE_AUTO \<and>
              t_elapsed clk - last_check s > real_of_int (time_check (config s))
      then
        (let s1 = log_fn ''Automatically updating shutters'' ''core/shutters'' ''info'' s
         in case check_luminosity_and_temp py s1 of
              (Inl e, s2) \<Rightarrow> (Inl e, s2)
            | (Inr (temp, lum), s2) \<Rightarrow>
                (case automatic_shutters py clk temp lum s2 of
                   (Inl e, s3) \<Rightarrow> (Inl e, s3)
                 | (Inr u, s3) \<Rightarrow> (Inr (), s3\<lparr>last_check := t_checked clk\<rparr>)))
      else (Inr (), s))"

section \<open>CentralUnit.py: commands\<close>

text \<open>The characters \<open>"\<close> and \<open>'\<close>.\<close>

definition dq :: string where "dq = [CHR 0x22]"
definition sq :: string where "sq = [CHR 0x27]"

text \<open>
  \<open>int(s)\<close> on a token: an optional sign and decimal digits. The other spellings \<open>int\<close>
  accepts (surrounding white space, underscores between digits) are not covered: \<open>None\<close>
  stands for ValueError.
\<close>

definition is_digit :: "char \<Rightarrow> bool" where
  "is_digit c = (48 \<le> (of_char c :: nat) \<and> (of_char c :: nat) \<le> 57)"

fun digits_value :: "nat \<Rightarrow> string \<Rightarrow> nat" where
  "digits_value acc [] = acc"
| "digits_value acc (c # cs) = digits_value (10 * acc + (of_char c - 48)) cs"

definition nat_of_digits :: "string \<Rightarrow> nat option" where
  "nat_of_digits s = (if s \<noteq> [] \<and> list_all is_digit s then Some (digits_value 0 s) else None)"

definition py_int :: "string \<Rightarrow> int option" where
  "py_int s =
     (case s of
        [] \<Rightarrow> None
      | c # cs \<Rightarrow>
          if c = CHR ''-'' then map_option (\<lambda>n. - int n) (nat_of_digits cs)
          else if c = CHR ''+'' then map_option int (nat_of_digits cs)
          else map_option int (nat_of_digits s))"

definition str_bool :: "bool \<Rightarrow> string" where
  "str_bool b = (if b then ''True'' else ''False'')"

text \<open>The type functions that \<open>_init_commands\<close> defines, and \<open>type=int\<close> with \<open>choices\<close>.\<close>

definition valid_time :: "string \<Rightarrow> error + int" where
  "valid_time in_val =
     (case py_int in_val of
        None \<Rightarrow> Inl (ValueError ''invalid literal for int() with base 10'')
      | Some val \<Rightarrow>
          if val < 0 then Inl (ValueError ''a valid_time should be an int >= 0'') else Inr val)"

definition lux :: "string \<Rightarrow> error + int" where
  "lux in_val =
     (case py_int in_val of
        None \<Rightarrow> Inl (ValueError ''invalid literal for int() with base 10'')
      | Some val \<Rightarrow>
          if val < 0 then Inl (ValueError ''lux should be an int >= 0'') else Inr val)"

definition low_tmp36_temp :: "string \<Rightarrow> error + int" where
  "low_tmp36_temp in_val =
     (case py_int in_val of
        None \<Rightarrow> Inl (ValueError ''invalid literal for int() with base 10'')
      | Some val \<Rightarrow>
          if \<not> (- 40 \<le> val \<and> val \<le> 16)
          then Inl (ValueError ''a low_tmp36_temp should be an int between-40 and 16'')
          else Inr val)"

definition high_tmp36_temp :: "string \<Rightarrow> error + int" where
  "high_tmp36_temp in_val =
     (case py_int in_val of
        None \<Rightarrow> Inl (ValueError ''invalid literal for int() with base 10'')
      | Some val \<Rightarrow>
          if \<not> (17 \<le> val \<and> val \<le> 60)
          then Inl (ValueError ''a high_tmp36_temp should be an int between17 and 60'')
          else Inr val)"

definition bool_from_int :: "string \<Rightarrow> error + bool" where
  "bool_from_int in_val =
     (case py_int in_val of
        None \<Rightarrow> Inl (ValueError ''invalid literal for int() with base 10'')
      | Some val \<Rightarrow> Inr (val \<noteq> 0))"

definition int_in :: "int list \<Rightarrow> string \<Rightarrow> error + int" where
  "int_in choices in_val =
     (case py_int in_val of
        None \<Rightarrow> Inl (ValueError ''invalid literal for int() with base 10'')
      | Some val \<Rightarrow>
          if val \<in> set choices then Inr val else Inl (ArgumentError ''invalid choice''))"

text \<open>
  The keyword arguments of \<open>_cmd_set_settings\<close>: the namespace of the \<open>set_settings\<close>
  subparser, one entry per option in the order of declaration, \<open>None\<close> for an option the
  command line does not give.
\<close>

record settings =
  arg_user_mode :: "int option"
  arg_time_check :: "int option"
  arg_sunrise_hour :: "int option"
  arg_sunset_hour :: "int option"
  arg_low_light_threshold :: "int option"
  arg_low_temp_threshold :: "int option"
  arg_high_temp_threshold :: "int option"
  arg_adapt_with_env_in_plain_day :: "bool option"

definition no_settings :: settings where
  "no_settings =
     \<lparr>arg_user_mode = None, arg_time_check = None, arg_sunrise_hour = None,
      arg_sunset_hour = None, arg_low_light_threshold = None, arg_low_temp_threshold = None,
      arg_high_temp_threshold = None, arg_adapt_with_env_in_plain_day = None\<rparr>"

text \<open>What \<open>vars(parse_args(...))\<close> holds besides \<open>command\<close>.\<close>

datatype kwargs =
    KW_none
  | KW_settings settings
  | KW_name string

text \<open>
  The parser library (\<open>argparseNoExit\<close>, a variant of the standard \<open>argparse\<close>) is not part
  of the repository. \<open>parse_args\<close> below is the parser that the declarations of
  \<open>_init_commands\<close> describe: the four commands registered with \<open>add_parser\<close>, the eight
  options meant for \<open>set_settings\<close>, the positional \<open>name\<close> of \<open>get_setting\<close> with the keys of
  the configuration as choices. It covers command lines made of a command, options spelled
  in full and each followed by its value, and positionals. A refusal by the parser is an
  ArgumentError that carries the refused token; an exception of a type function becomes an
  ArgumentError too, as \<open>argparse\<close> does. The other forms \<open>argparse\<close> knows (abbreviated
  options, \<open>--option=value\<close>, \<open>--\<close>) are \<open>Unmodelled\<close>.
\<close>

definition refuse :: "string \<Rightarrow> error + 'a" where
  "refuse tok = (if take 1 tok = ''-'' then Inl (Unmodelled tok) else Inl (ArgumentError tok))"

definition converted :: "string \<Rightarrow> (string \<Rightarrow> error + 'a) \<Rightarrow> ('a \<Rightarrow> settings) \<Rightarrow> error + settings" where
  "converted v type_fn store =
     (case type_fn v of
        Inl e \<Rightarrow> Inl (ArgumentError v)
      | Inr x \<Rightarrow> Inr (store x))"

definition set_option :: "string \<Rightarrow> string \<Rightarrow> settings \<Rightarrow> error + settings" where
  "set_option opt v ns =
     (if opt = ''--user_mode''
      then converted v (int_in [USER_MODE_AUTO, USER_MODE_OPEN, USER_MODE_CLOSE])
             (\<lambda>x. ns\<lparr>arg_user_mode := Some x\<rparr>)
      else if opt = ''--time_check''
      then converted v valid_time (\<lambda>x. ns\<lparr>arg_time_check := Some x\<rparr>)
      else if opt = ''--sunrise_hour''
      then converted v (int_in [0..9]) (\<lambda>x. ns\<lparr>arg_sunrise_hour := Some x\<rparr>)
      else if opt = ''--sunset_hour''
      then converted v (int_in [14..22]) (\<lambda>x. ns\<lparr>arg_sunset_hour := Some x\<rparr>)
      else if opt = ''--low_light_threshold''
      then converted v lux (\<lambda>x. ns\<lparr>arg_low_light_threshold := Some x\<rparr>)
      else if opt = ''--low_temp_threshold''
      then converted v low_tmp36_temp (\<lambda>x. ns\<lparr>arg_low_temp_threshold := Some x\<rparr>)
      else if opt = ''--high_temp_threshold''
      then converted v high_tmp36_temp (\<lambda>x. ns\<lparr>arg_high_temp_threshold := Some x\<rparr>)
      else if opt = ''--adapt_with_env_in_plain_day''
      then converted v bool_from_int (\<lambda>x. ns\<lparr>arg_adapt_with_env_in_plain_day := Some x\<rparr>)
      else refuse opt)"

fun parse_set_settings :: "string list \<Rightarrow> settings \<Rightarrow> error + settings" where
  "parse_set_settings [] ns = Inr ns"
| "parse_set_settings [opt] ns =
     (if opt \<in> set (map (\<lambda>k. ''--'' @ k) config_keys)
      then Inl (ArgumentError opt) else refuse opt)"
| "parse_set_settings (opt # v # rest) ns =
     (case set_option opt v ns of
        Inl e \<Rightarrow> Inl e
      | Inr ns' \<Rightarrow> parse_set_settings rest ns')"

definition parse_args :: "string list \<Rightarrow> error + string option \<times> kwargs" where
  "parse_args toks =
     (case toks of
        [] \<Rightarrow> Inr (None, KW_none)
      | c # rest \<Rightarrow>
          if c = ''set_settings''
          then (case parse_set_settings rest no_settings of
                  Inl e \<Rightarrow> Inl e
                | Inr ns \<Rightarrow> Inr (Some c, KW_settings ns))
          else if c = ''get_setting''
          then (case rest of
                  [] \<Rightarrow> Inl (ArgumentError ''name'')
                | [name] \<Rightarrow>
                    if take 1 name = ''-'' then Inl (Unmodelled name)
                    else if name \<in> set config_keys then Inr (Some c, KW_name name)
                    else Inl (ArgumentError name)
                | name # extra # others \<Rightarrow> refuse extra)
          else if c = ''force_update'' \<or> c = ''shutdown''
          then (case rest of
                  [] \<Rightarrow> Inr (Some c, KW_none)
                | extra # others \<Rightarrow> refuse extra)
          else refuse c)"

text \<open>The dict shown by an f-string, as in the debug line of \<open>parse_command\<close>.\<close>

definition repr_option :: "('a \<Rightarrow> string) \<Rightarrow> 'a option \<Rightarrow> string" where
  "repr_option str v = (case v of None \<Rightarrow> ''None'' | Some x \<Rightarrow> str x)"

definition repr_kwargs :: "kwargs \<Rightarrow> string" where
  "repr_kwargs args =
     (case args of
        KW_none \<Rightarrow> ''{}''
      | KW_name n \<Rightarrow> ''{'' @ sq @ ''name'' @ sq @ '': '' @ sq @ n @ sq @ ''}''
      | KW_settings st \<Rightarrow>
          ''{'' @ sq @ ''user_mode'' @ sq @ '': '' @ repr_option str_int (arg_user_mode st)
          @ '', '' @ sq @ ''time_check'' @ sq @ '': '' @ repr_option str_int (arg_time_check st)
          @ '', '' @ sq @ ''sunrise_hour'' @ sq @ '': ''
          @ repr_option str_int (arg_sunrise_hour st)
          @ '', '' @ sq @ ''sunset_hour'' @ sq @ '': '' @ repr_option str_int (arg_sunset_hour st)
          @ '', '' @ sq @ ''low_light_threshold'' @ sq @ '': ''
          @ repr_option str_int (arg_low_light_threshold st)
          @ '', '' @ sq @ ''low_temp_threshold'' @ sq @ '': ''
          @ repr_option str_int (arg_low_temp_threshold st)
          @ '', '' @ sq @ ''high_temp_threshold'' @ sq @ '': ''
          @ repr_option str_int (arg_high_temp_threshold st)
          @ '', '' @ sq @ ''adapt_with_env_in_plain_day'' @ sq @ '': ''
          @ repr_option str_bool (arg_adapt_with_env_in_plain_day st) @ ''}'')"

definition cmd_shutdown :: "central_unit \<Rightarrow> central_unit" where
  "cmd_shutdown s = s\<lparr>loop_flag := False\<rparr>"

text \<open>\<open>str(self.__config[name])\<close>; \<open>None\<close> stands for KeyError.\<close>

definition config_str :: "string \<Rightarrow> config \<Rightarrow> string option" where
  "config_str name c =
     (if name = ''user_mode'' then Some (str_int (user_mode c))
      else if name = ''time_check'' then Some (str_int (time_check c))
      else if name = ''sunrise_hour'' then Some (str_int (sunrise_hour c))
      else if name = ''sunset_hour'' then Some (str_int (sunset_hour c))
      else if name = ''low_light_threshold'' then Some (str_int (low_light_threshold c))
      else if name = ''low_temp_threshold'' then Some (str_int (low_temp_threshold c))
      else if name = ''high_temp_threshold'' then Some (str_int (high_temp_threshold c))
      else if name = ''adapt_with_env_in_plain_day''
      then Some (str_bool (adapt_with_env_in_plain_day c))
      else None)"

definition cmd_log_setting :: "string \<Rightarrow> central_unit \<Rightarrow> (error + unit) \<times> central_unit" where
  "cmd_log_setting name s =
     (case config_str name (config s) of
        None \<Rightarrow> (Inl (KeyError name), s)
      | Some v \<Rightarrow> (Inr (), log_fn (name @ '' is '' @ v) ''core/cmd'' ''status'' s))"

text \<open>One turn of the loop of \<open>_cmd_set_settings\<close>: nothing when the value is \<open>None\<close>.\<close>

definition assign ::
    "string \<Rightarrow> 'a option \<Rightarrow> ('a \<Rightarrow> string) \<Rightarrow> ('a \<Rightarrow> config \<Rightarrow> config) \<Rightarrow> central_unit \<Rightarrow> central_unit" where
  "assign name val str store s =
     (case val of
        None \<Rightarrow> s
      | Some v \<Rightarrow>
          log_fn (name @ '' now has '' @ str v @ '' is now'') ''core/cmd'' ''status''
            (s\<lparr>config := store v (config s)\<rparr>))"

definition cmd_set_settings :: "settings \<Rightarrow> central_unit \<Rightarrow> central_unit" where
  "cmd_set_settings st s =
     (let s1 = assign ''user_mode'' (arg_user_mode st) str_int (\<lambda>v c. c\<lparr>user_mode := v\<rparr>) s;
          s2 = assign ''time_check'' (arg_time_check st) str_int (\<lambda>v c. c\<lparr>time_check := v\<rparr>) s1;
          s3 = assign ''sunrise_hour'' (arg_sunrise_hour st) str_int
                 (\<lambda>v c. c\<lparr>sunrise_hour := v\<rparr>) s2;
          s4 = assign ''sunset_hour'' (arg_sunset_hour st) str_int
                 (\<lambda>v c. c\<lparr>sunset_hour := v\<rparr>) s3;
          s5 = assign ''low_light_threshold'' (arg_low_light_threshold st) str_int
                 (\<lambda>v c. c\<lparr>low_light_threshold := v\<rparr>) s4;
          s6 = assign ''low_temp_threshold'' (arg_low_temp_threshold st) str_int
                 (\<lambda>v c. c\<lparr>low_temp_threshold := v\<rparr>) s5;
          s7 = assign ''high_temp_threshold'' (arg_high_temp_threshold st) str_int
                 (\<lambda>v c. c\<lparr>high_temp_threshold := v\<rparr>) s6
      in assign ''adapt_with_env_in_plain_day'' (arg_adapt_with_env_in_plain_day st) str_bool
           (\<lambda>v c. c\<lparr>adapt_with_env_in_plain_day := v\<rparr>) s7)"

definition cmd_force_update :: "central_unit \<Rightarrow> central_unit" where
  "cmd_force_update s =
     s\<lparr>last_check := last_check s - (real_of_int (time_check (config s)) + 1)\<rparr>"

text \<open>
  \<open>getattr(self, fn_name)(**args)\<close>: the class has four methods whose name starts with
  \<open>_cmd_\<close>; any other such name is an AttributeError, and keyword arguments that a method
  does not take are a TypeError.
\<close>

definition getattr_call ::
    "string \<Rightarrow> kwargs \<Rightarrow> central_unit \<Rightarrow> (error + unit) \<times> central_unit" where
  "getattr_call fn_name args s =
     (if fn_name = ''_cmd_shutdown''
      then (case args of
              KW_none \<Rightarrow> (Inr (), cmd_shutdown s)
            | other \<Rightarrow> (Inl (TypeError ''got an unexpected keyword argument''), s))
      else if fn_name = ''_cmd_log_setting''
      then (case args of
              KW_name n \<Rightarrow> cmd_log_setting n s
            | KW_none \<Rightarrow> (Inl (TypeError ''missing 1 required positional argument''), s)
            | other \<Rightarrow> (Inl (TypeError ''got an unexpected keyword argument''), s))
      else if fn_name = ''_cmd_set_settings''
      then (case args of
              KW_settings st \<Rightarrow> (Inr (), cmd_set_settings st s)
            | KW_none \<Rightarrow> (Inr (), s)
            | KW_name n \<Rightarrow> (Inl (Unmodelled fn_name), s))
      else if fn_name = ''_cmd_force_update''
      then (case args of
              KW_none \<Rightarrow> (Inr (), cmd_force_update s)
            | other \<Rightarrow> (Inl (TypeError ''got an unexpected keyword argument''), s))
      else (Inl (AttributeError fn_name), s))"

definition parse_command :: "string \<Rightarrow> central_unit \<Rightarrow> (error + unit) \<times> central_unit" where
  "parse_command cmd s =
     (let err_before = ''command '' @ dq @ cmd @ dq @ '': '';
          in_command = split_py CHR '' '' cmd
      in case parse_args in_command of
           Inl (ArgumentError m) \<Rightarrow>
             (Inr (), log_fn (err_before @ '' syntax: '' @ m) ''core/cmd'' ''error'' s)
         | Inl (TypeError m) \<Rightarrow>
             (Inr (), log_fn (err_before @ '' parameters: '' @ m) ''core/cmd'' ''error'' s)
         | Inl (ValueError m) \<Rightarrow>
             (Inr (), log_fn (err_before @ '' parameters: '' @ m) ''core/cmd'' ''error'' s)
         | Inl e \<Rightarrow> (Inl e, s)
         | Inr (command, args) \<Rightarrow>
             (case command of
                None \<Rightarrow> (Inl (TypeError ''can only concatenate str to str''), s)
              | Some c \<Rightarrow>
                  (let fn_name = ''_cmd_'' @ c;
                       s1 = log_fn (''running function '' @ fn_name @ '' with '' @ dq
                                      @ repr_kwargs args @ dq @ '' for kwargs'')
                              ''core/cmd'' ''debug'' s
                   in getattr_call fn_name args s1)))"

text \<open>A list of commands run in order, as \<open>_run_commands\<close> does; a raise ends the run.\<close>

fun run_commands :: "string list \<Rightarrow> central_unit \<Rightarrow> (error + unit) \<times> central_unit" where
  "run_commands [] s = (Inr (), s)"
| "run_commands (cmd # cmds) s =
     (case parse_command cmd s of
        (Inl e, s') \<Rightarrow> (Inl e, s')
      | (Inr u, s') \<Rightarrow> run_commands cmds s')"

section \<open>CentralUnitCommunicator.py and CentralUnitCommunicatorFile.py\<close>

text \<open>
  A class, as far as instantiation is concerned: its bases, the names its body defines with
  \<open>def\<close>, and those among them under \<open>@abc.abstractmethod\<close>.
\<close>

record py_class =
  class_name :: string
  bases :: "string list"
  methods :: "string list"
  abstract :: "string list"

definition CentralUnitCommunicator :: py_class where
  "CentralUnitCommunicator =
     \<lparr>class_name = ''CentralUnitCommunicator'', bases = [''ABC''],
      methods = [''__init__'', ''__del__'', ''get_cmds'', ''log'', ''check_attrs'',
                 ''_generate_log_output''],
      abstract = [''__init__'', ''__del__'', ''get_cmds'', ''log'']\<rparr>"

definition CentralUnitCommunicatorFile :: py_class where
  "CentralUnitCommunicatorFile =
     \<lparr>class_name = ''CentralUnitCommunicatorFile'', bases = [''CentralUnitCommunicator''],
      methods = [''__init__'', ''__del__'', ''get_cmd'', ''get_line_end'', ''log''],
      abstract = []\<rparr>"

text \<open>
  The abstract methods a subclass is left with: its own, and those of its parent that its
  body does not define again. Python refuses to instantiate a class that has any.
\<close>

definition abstractmethods :: "py_class \<Rightarrow> py_class \<Rightarrow> string list" where
  "abstractmethods parent c =
     abstract c @ filter (\<lambda>m. m \<notin> set (methods c)) (abstract parent)"

text \<open>The keyword arguments of the File communicator that its checks look at.\<close>

record comm_args =
  log_types_on :: "string list option"
  max_cmds_in_queue :: int
  line_end :: int

record communicator =
  comm_log_types_on :: "string list"
  comm_max_cmd :: int
  comm_line_end :: int

definition check_attrs :: "string list \<Rightarrow> int \<Rightarrow> error + string list \<times> int" where
  "check_attrs types max_cmd_in_queue =
     (if max_cmd_in_queue \<le> 1 then Inl (ValueError ''max_cmd_in_queue must be an int > 1'')
      else Inr (types, max_cmd_in_queue))"

definition CentralUnitCommunicatorFile_init :: "comm_args \<Rightarrow> error + communicator" where
  "CentralUnitCommunicatorFile_init args =
     (let types = (case log_types_on args of
                     None \<Rightarrow> [''error'', ''warning'', ''status'', ''debug'']
                   | Some ts \<Rightarrow> ts)
      in case check_attrs types (max_cmds_in_queue args) of
           Inl e \<Rightarrow> Inl e
         | Inr (ts, mx) \<Rightarrow>
             if line_end args \<notin> set [0, 1, 2] then Inl (ValueError ''invalid line_end'')
             else Inr \<lparr>comm_log_types_on = ts, comm_max_cmd = mx,
                       comm_line_end = line_end args\<rparr>)"

section \<open>CentralUnit.py: initialisation\<close>

text \<open>\<open>re.match('[A-Z0-9][a-z0-9]*', suffix)\<close>: the first character is a capital or a digit.\<close>

definition suffix_matches :: "string \<Rightarrow> bool" where
  "suffix_matches suffix =
     (case suffix of
        [] \<Rightarrow> False
      | c # cs \<Rightarrow>
          (65 \<le> (of_char c :: nat) \<and> (of_char c :: nat) \<le> 90) \<or>
          (48 \<le> (of_char c :: nat) \<and> (of_char c :: nat) \<le> 57))"

text \<open>
  \<open>getattr(import_module(class_name), class_name)\<close>: the repository has one communicator
  module.
\<close>

definition import_class :: "string \<Rightarrow> error + py_class" where
  "import_class name =
     (if name = ''CentralUnitCommunicatorFile'' then Inr CentralUnitCommunicatorFile
      else Inl (ModuleNotFoundError name))"

definition init_communicator :: "string \<Rightarrow> comm_args \<Rightarrow> error + communicator" where
  "init_communicator suffix args =
     (let name = ''CentralUnitCommunicator'' @ suffix
      in case import_class name of
           Inl e \<Rightarrow> Inl e
         | Inr comm_class \<Rightarrow>
             if ''CentralUnitCommunicator'' \<notin> set (bases comm_class)
             then Inl (TypeError ''Invalid suffix for central unit's communicator class'')
             else if abstractmethods CentralUnitCommunicator comm_class \<noteq> []
             then Inl (TypeError (''Can't instantiate abstract class '' @ class_name comm_class))
             else CentralUnitCommunicatorFile_init args)"

text \<open>
  \<open>_init_commands\<close>. The dict \<open>subparsers\<close> maps a key to the subparser of a command; then
  each \<open>add_argument\<close> call indexes the dict with a key and adds an argument to what it finds.
  The result lists (command, argument) in the order added. The last call also reads the keys
  of \<open>self.__config\<close>: the argument \<open>cfg\<close> is \<open>None\<close> while that attribute is not assigned.
\<close>

definition subparsers :: "(string \<times> string) list" where
  "subparsers =
     [(''set_settings'', ''set_settings''), (''log_setting'', ''get_setting''),
      (''force_update'', ''force_update''), (''shutdown'', ''shutdown'')]"

definition add_argument_calls :: "(string \<times> string) list" where
  "add_argument_calls =
     [(''set_setting'', ''--user_mode''), (''set_setting'', ''--time_check''),
      (''set_setting'', ''--sunrise_hour''), (''set_setting'', ''--sunset_hour''),
      (''set_setting'', ''--low_light_threshold''), (''set_setting'', ''--low_temp_threshold''),
      (''set_setting'', ''--high_temp_threshold''),
      (''set_setting'', ''--adapt_with_env_in_plain_day''),
      (''log_setting'', ''name'')]"

fun add_arguments ::
    "(string \<times> string) list \<Rightarrow> string list option \<Rightarrow> (string \<times> string) list \<Rightarrow>
     (string \<times> string) list \<Rightarrow> error + (string \<times> string) list" where
  "add_arguments sub cfg [] p = Inr p"
| "add_arguments sub cfg ((key, arg) # calls) p =
     (case map_of sub key of
        None \<Rightarrow> Inl (KeyError key)
      | Some cmd \<Rightarrow>
          if arg = ''name'' \<and> cfg = None then Inl (AttributeError ''_CentralUnit__config'')
          else add_arguments sub cfg calls (p @ [(cmd, arg)]))"

definition init_commands :: "string list option \<Rightarrow> error + (string \<times> string) list" where
  "init_commands cfg = add_arguments subparsers cfg add_argument_calls []"

text \<open>
  The attributes that \<open>_init_attributes\<close> assigns, with the link that \<open>_init_arduino\<close> stores
  next. No line of it assigns \<open>self._last_closed\<close>.
\<close>

definition assigned_attributes :: "real \<Rightarrow> link \<Rightarrow> central_unit" where
  "assigned_attributes now a =
     \<lparr>loop_flag = True, priv_last_closed = 0, last_closed = None,
      shutters_state = SHUTTERS_OPENED, config = default_config,
      last_check = now - real_of_int (time_check default_config),
      arduino = a, logged = []\<rparr>"

text \<open>
  \<open>_init_attributes\<close> calls \<open>_init_commands\<close> before it assigns \<open>self.__config\<close>; an exception
  there leaves the method. Its result is the object that still waits for its link.
\<close>

definition init_attributes :: "real \<Rightarrow> error + (link \<Rightarrow> central_unit)" where
  "init_attributes now =
     (case init_commands None of
        Inl e \<Rightarrow> Inl e
      | Inr p \<Rightarrow> Inr (assigned_attributes now))"

text \<open>
  How \<open>__init__\<close> ends: the object is ready, an exception leaves the constructor, or
  \<open>_proper_exit\<close> ends the process with a status.
\<close>

datatype outcome =
    Completed central_unit
  | Unhandled error
  | Exited int

definition proper_exit :: "int \<Rightarrow> outcome" where
  "proper_exit code = Exited code"

text \<open>
  \<open>__init__\<close>: the suffix test and \<open>_init_communicator\<close> stand before the \<open>try\<close>, so what
  they raise leaves the constructor; what the three calls inside the \<open>try\<close> raise goes to
  \<open>_proper_exit(1, e)\<close>. \<open>incoming\<close> is what the serial port will deliver.
\<close>

definition CentralUnit_init ::
    "string \<Rightarrow> string \<Rightarrow> comm_args \<Rightarrow> string list \<Rightarrow> real \<Rightarrow> outcome" where
  "CentralUnit_init initialisation_command communicator_suffix communicator_args incoming now =
     (if \<not> suffix_matches communicator_suffix
      then Unhandled (ValueError ''Invalid suffix for central unit's communicatorclass'')
      else
        (case init_communicator communicator_suffix communicator_args of
           Inl e \<Rightarrow> Unhandled e
         | Inr comm \<Rightarrow>
             (case init_attributes now of
                Inl e \<Rightarrow> proper_exit 1
              | Inr unit_with \<Rightarrow>
                  (case ArduinoSerial_init True incoming of
                     Inl e \<Rightarrow> proper_exit 1
                   | Inr a \<Rightarrow>
                       (case parse_command initialisation_command (unit_with a) of
                          (Inl e, s) \<Rightarrow> proper_exit 1
                        | (Inr u, s) \<Rightarrow> Completed s)))))"

section \<open>Sample values\<close>

text \<open>
  Concrete inputs at which the results below are evaluated: a link whose peer never answers
  and one whose peer acknowledges with a line, a \<open>float\<close> that reads the decimal integers,
  clock readings of one cycle at noon, and the object as \<open>_init_attributes\<close> fills it.
\<close>

definition quiet_link :: link where
  "quiet_link = \<lparr>compatible_with_AS = True, tx = [], rx = []\<rparr>"

definition answering_link :: link where
  "answering_link = \<lparr>compatible_with_AS = True, tx = [], rx = [''OK'' @ CRLF]\<rparr>"

definition sample_builtins :: builtins where
  "sample_builtins =
     \<lparr>float_of = (\<lambda>x. map_option real_of_int (py_int x)), str_float = (\<lambda>x. ''?'')\<rparr>"

definition noon :: clock where
  "noon = \<lparr>tm_hour = 12, daylight = 0, t_elapsed = 10000, t_hysteresis = 10000,
           t_close = 10001, t_checked = 10002\<rparr>"

definition fresh_unit :: central_unit where
  "fresh_unit = assigned_attributes 0 quiet_link"

section \<open>The serial link: results\<close>

lemma str_int_opcodes:
  "str_int 8 = ''8''" "str_int 16 = ''16''" "str_int 32 = ''32''"
  by code_simp+

lemma ArduinoSerial_init_plain:
  "ArduinoSerial_init False incoming =
     Inr \<lparr>compatible_with_AS = False, tx = [], rx = incoming\<rparr>"
  by (simp add: ArduinoSerial_init_def)

text \<open>
  C4. On a link whose peer follows the protocol of \<open>ask\<close> (\<open>compatible_with_AS\<close>, the
  condition the docstring of \<open>ask\<close> sets) and for a message the ASCII codec encodes: with
  two fields expected, the line \<open>21.5;430\<close> makes \<open>ask\<close> return the list of the two fields
  in order, the line \<open>ERROR;sensor fault\<close> makes it raise ConnectionError, whose text ends
  with the peer's message \<open>sensor fault\<close>, and no line before the timeout makes it raise
  TimeoutError; with no field expected, no line before the timeout raises nothing and
  \<open>ask\<close> returns \<open>None\<close>.
\<close>

theorem ask_answers:
  assumes "compatible_with_AS l" and "ascii (msg @ le)"
  shows "(rx l = (''21.5;430'' @ CRLF) # rest \<longrightarrow>
            ask msg 2 le l =
              (Inr (Info [''21.5'', ''430'']), l\<lparr>tx := tx l @ [msg @ le], rx := rest\<rparr>)) \<and>
         (rx l = (''ERROR;sensor fault'' @ CRLF) # rest \<longrightarrow>
            fst (ask msg 2 le l) =
              Inl (ConnectionError (''Arduino returned error : '' @ ''sensor fault''))) \<and>
         (no_response l \<longrightarrow>
            fst (ask msg 2 le l) =
              Inl (TimeoutError ''Arduino didn't return anything in time'')) \<and>
         (no_response l \<longrightarrow> fst (ask msg 0 le l) = Inr NoValue)"
  using assms
  by (auto simp: ask_def send_def read_line_def serial_read_until_def no_response_def
        CRLF_def ascii_def split: list.splits)

theorem ask_answers_witness:
  "ask ''32'' 2 [] \<lparr>compatible_with_AS = True, tx = [], rx = [''21.5;430'' @ CRLF]\<rparr> =
     (Inr (Info [''21.5'', ''430'']), \<lparr>compatible_with_AS = True, tx = [''32''], rx = []\<rparr>) \<and>
   fst (ask ''32'' 2 []
          \<lparr>compatible_with_AS = True, tx = [], rx = [''ERROR;sensor fault'' @ CRLF]\<rparr>) =
     Inl (ConnectionError ''Arduino returned error : sensor fault'') \<and>
   fst (ask ''32'' 2 [] \<lparr>compatible_with_AS = True, tx = [], rx = []\<rparr>) =
     Inl (TimeoutError ''Arduino didn't return anything in time'') \<and>
   fst (ask ''16'' 0 [] \<lparr>compatible_with_AS = True, tx = [], rx = []\<rparr>) = Inr NoValue"
  using ask_answers [of "\<lparr>compatible_with_AS = True, tx = [], rx = [''21.5;430'' @ CRLF]\<rparr>"
                        "''32''" "[]" "[]"]
        ask_answers [of "\<lparr>compatible_with_AS = True, tx = [],
                           rx = [''ERROR;sensor fault'' @ CRLF]\<rparr>" "''32''" "[]" "[]"]
        ask_answers [of "\<lparr>compatible_with_AS = True, tx = [], rx = []\<rparr>" "''32''" "[]" "[]"]
        ask_answers [of "\<lparr>compatible_with_AS = True, tx = [], rx = []\<rparr>" "''16''" "[]" "[]"]
  by (simp add: ascii_def no_response_def)

text \<open>
  C10. On a link built with \<open>programmed_for_as=False\<close> the flag \<open>compatible_with_AS\<close> is
  false (\<open>ArduinoSerial_init_plain\<close>) and nothing changes it afterwards. On such a link
  every call of \<open>ask\<close> leaves the port as it was, nothing written and nothing read, and
  returns a NotImplementedError instance as its value: it does not raise it.
\<close>

theorem ask_returns_exception_instance:
  "\<not> compatible_with_AS l \<Longrightarrow>
     ask msg n le l =
       (Inr (ExcInstance (NotImplementedError
          ''Arduino isn't compatible with AS's special methods.'')), l)"
  by (simp add: ask_def)

theorem ask_returns_exception_instance_witness:
  "\<not> compatible_with_AS \<lparr>compatible_with_AS = False, tx = [], rx = [''21.5;430'' @ CRLF]\<rparr> \<and>
   ask ''32'' 2 [] \<lparr>compatible_with_AS = False, tx = [], rx = [''21.5;430'' @ CRLF]\<rparr> =
     (Inr (ExcInstance (NotImplementedError
        ''Arduino isn't compatible with AS's special methods.'')),
      \<lparr>compatible_with_AS = False, tx = [], rx = [''21.5;430'' @ CRLF]\<rparr>)"
  using ask_returns_exception_instance
          [of "\<lparr>compatible_with_AS = False, tx = [], rx = [''21.5;430'' @ CRLF]\<rparr>" "''32''" 2 "[]"]
  by simp

section \<open>Shutters: results\<close>

lemma ascii_opcodes:
  "ascii (str_int ARDUINO_CLOSE_SHUTTERS @ [])" "ascii (str_int ARDUINO_OPEN_SHUTTERS @ [])"
  "ascii (str_int ARDUINO_GET_ENV @ [])"
  by (simp_all add: ARDUINO_CLOSE_SHUTTERS_def ARDUINO_OPEN_SHUTTERS_def ARDUINO_GET_ENV_def
        str_int_opcodes ascii_def)

lemma ask_silent:
  "compatible_with_AS l \<Longrightarrow> no_response l \<Longrightarrow> ascii (msg @ le) \<Longrightarrow>
     fst (ask msg 0 le l) = Inr NoValue"
  by (auto simp: ask_def send_def read_line_def serial_read_until_def no_response_def
        CRLF_def ascii_def split: list.splits)

text \<open>With hours that are ints one of the tests of \<open>_get_day_time\<close> always applies.\<close>

lemma get_day_time_total: "get_day_time hour lum s \<noteq> None"
  by (auto simp: get_day_time_def Let_def)

text \<open>The two actuation paths start their log differently, so their results never agree.\<close>

lemma logged_close:
  "\<exists>rest. logged (snd (close_shutters_if_opened now s)) =
     logged s @ (if shutters_state s \<noteq> SHUTTERS_CLOSED
                 then (''Closing shutters'', ''core/shutters'', ''status'')
                 else (''Shutters are already closed'', ''core/shutters'', ''debug'')) # rest"
  by (cases "ask (str_int ARDUINO_CLOSE_SHUTTERS) 0 [] (arduino s)")
     (auto simp: close_shutters_if_opened_def log_fn_def Let_def split: sum.splits)

lemma logged_open:
  "\<exists>rest. logged (snd (open_shutters_if_closed s)) =
     logged s @ (if shutters_state s \<noteq> SHUTTERS_OPENED
                 then (''Opening shutters'', ''core/shutters'', ''status'')
                 else (''Shutters are already opened'', ''core/shutters'', ''debug'')) # rest"
  by (cases "ask (str_int ARDUINO_OPEN_SHUTTERS) 0 [] (arduino s)")
     (auto simp: open_shutters_if_closed_def log_fn_def Let_def split: sum.splits)

lemma close_differs_from_open:
  "close_shutters_if_opened now s \<noteq> open_shutters_if_closed s"
proof
  assume eq: "close_shutters_if_opened now s = open_shutters_if_closed s"
  obtain r1 where c: "logged (snd (close_shutters_if_opened now s)) =
     logged s @ (if shutters_state s \<noteq> SHUTTERS_CLOSED
                 then (''Closing shutters'', ''core/shutters'', ''status'')
                 else (''Shutters are already closed'', ''core/shutters'', ''debug'')) # r1"
    using logged_close by blast
  obtain r2 where opn: "logged (snd (open_shutters_if_closed s)) =
     logged s @ (if shutters_state s \<noteq> SHUTTERS_OPENED
                 then (''Opening shutters'', ''core/shutters'', ''status'')
                 else (''Shutters are already opened'', ''core/shutters'', ''debug'')) # r2"
    using logged_open by blast
  from c opn eq show False by (simp split: if_splits)
qed

lemma close_result_closed:
  "fst (close_shutters_if_opened now s) = Inr u \<Longrightarrow>
     shutters_state (snd (close_shutters_if_opened now s)) = SHUTTERS_CLOSED"
  by (cases "ask (str_int ARDUINO_CLOSE_SHUTTERS) 0 [] (arduino s)")
     (auto simp: close_shutters_if_opened_def log_fn_def Let_def split: sum.splits if_splits)

lemma close_silent:
  assumes "compatible_with_AS (arduino s)" and "no_response (arduino s)"
  shows "fst (close_shutters_if_opened now s) = Inr () \<and>
         shutters_state (snd (close_shutters_if_opened now s)) = SHUTTERS_CLOSED \<and>
         (shutters_state s \<noteq> SHUTTERS_CLOSED \<longrightarrow>
            last_closed (snd (close_shutters_if_opened now s)) = Some now)"
proof -
  have "fst (ask (str_int ARDUINO_CLOSE_SHUTTERS) 0 [] (arduino s)) = Inr NoValue"
    using assms ascii_opcodes(1) by (rule ask_silent)
  then show ?thesis
    by (cases "ask (str_int ARDUINO_CLOSE_SHUTTERS) 0 [] (arduino s)")
       (auto simp: close_shutters_if_opened_def log_fn_def Let_def)
qed

lemma open_silent:
  assumes "compatible_with_AS (arduino s)" and "no_response (arduino s)"
  shows "fst (open_shutters_if_closed s) = Inr () \<and>
         shutters_state (snd (open_shutters_if_closed s)) = SHUTTERS_OPENED \<and>
         last_closed (snd (open_shutters_if_closed s)) = last_closed s"
proof -
  have "fst (ask (str_int ARDUINO_OPEN_SHUTTERS) 0 [] (arduino s)) = Inr NoValue"
    using assms ascii_opcodes(2) by (rule ask_silent)
  then show ?thesis
    by (cases "ask (str_int ARDUINO_OPEN_SHUTTERS) 0 [] (arduino s)")
       (auto simp: open_shutters_if_closed_def log_fn_def Let_def)
qed

lemma close_raise_keeps:
  "fst (close_shutters_if_opened now s) = Inl e \<Longrightarrow>
     shutters_state (snd (close_shutters_if_opened now s)) = shutters_state s \<and>
     last_closed (snd (close_shutters_if_opened now s)) = last_closed s \<and>
     priv_last_closed (snd (close_shutters_if_opened now s)) = priv_last_closed s"
  by (cases "ask (str_int ARDUINO_CLOSE_SHUTTERS) 0 [] (arduino s)")
     (auto simp: close_shutters_if_opened_def log_fn_def Let_def split: sum.splits if_splits)

lemma open_raise_keeps:
  "fst (open_shutters_if_closed s) = Inl e \<Longrightarrow>
     shutters_state (snd (open_shutters_if_closed s)) = shutters_state s \<and>
     last_closed (snd (open_shutters_if_closed s)) = last_closed s \<and>
     priv_last_closed (snd (open_shutters_if_closed s)) = priv_last_closed s"
  by (cases "ask (str_int ARDUINO_OPEN_SHUTTERS) 0 [] (arduino s)")
     (auto simp: open_shutters_if_closed_def log_fn_def Let_def split: sum.splits if_splits)

lemma split_two_fields:
  "CHR '';'' \<notin> set a \<Longrightarrow> CHR '';'' \<notin> set b \<Longrightarrow> split_py CHR '';'' (a @ '';'' @ b) = [a, b]"
proof (induction a)
  case Nil
  have "split_py CHR '';'' b = [b]" using Nil(2)
    by (induction b) (auto split: list.splits)
  then show ?case by simp
next
  case (Cons c a)
  then show ?case by auto
qed

text \<open>
  C5. When the hour is the configured sunrise hour, and the sunrise hour is not after the
  sunset hour, \<open>_get_day_time\<close> returns PLAIN_NIGHT exactly when the luminosity is at most
  the low-light threshold and the shutters are recorded closed; in every other case it
  returns PLAIN_DAY. The defaults (7 and 19) and the ranges that \<open>set_settings\<close> accepts
  (0 to 9, 14 to 22) keep the sunrise hour before the sunset hour
  (\<open>default_config_hours\<close>, \<open>parse_command_keeps_hours\<close>).
\<close>

theorem sunrise_hour_classification:
  "sunrise_hour (config s) \<le> sunset_hour (config s) \<Longrightarrow>
     get_day_time (sunrise_hour (config s)) lum s =
       Some (if lum \<le> real_of_int (low_light_threshold (config s)) \<and>
                shutters_state s = SHUTTERS_CLOSED
             then PLAIN_NIGHT else PLAIN_DAY)"
  by (simp add: get_day_time_def Let_def)

theorem sunrise_hour_classification_witness:
  "sunrise_hour (config (fresh_unit\<lparr>shutters_state := SHUTTERS_CLOSED\<rparr>))
     \<le> sunset_hour (config (fresh_unit\<lparr>shutters_state := SHUTTERS_CLOSED\<rparr>)) \<and>
   get_day_time 7 40 (fresh_unit\<lparr>shutters_state := SHUTTERS_CLOSED\<rparr>) = Some PLAIN_NIGHT \<and>
   get_day_time 7 400 (fresh_unit\<lparr>shutters_state := SHUTTERS_CLOSED\<rparr>) = Some PLAIN_DAY"
  using sunrise_hour_classification [of "fresh_unit\<lparr>shutters_state := SHUTTERS_CLOSED\<rparr>" 40]
        sunrise_hour_classification [of "fresh_unit\<lparr>shutters_state := SHUTTERS_CLOSED\<rparr>" 400]
  by (simp add: fresh_unit_def assigned_attributes_def default_config_def)

text \<open>
  C1. When the attribute \<open>_last_closed\<close> holds a time less than 3600 seconds before the
  clock reading of the hysteresis test, \<open>_automatic_shutters\<close> does what the close path
  does, whatever the hour, the temperature, the luminosity, the configuration and the
  recorded state: its result is that of \<open>_close_shutters_if_opened\<close> after the debug line,
  it is never that of \<open>_open_shutters_if_closed\<close>, and when it returns without raising the
  shutters are recorded closed.
\<close>

theorem hysteresis_closes:
  assumes "last_closed s = Some t" and "t_hysteresis clk - 3600 < t"
  shows "automatic_shutters py clk temp lum s =
           close_shutters_if_opened (t_close clk) (report_cycle py clk temp lum s) \<and>
         automatic_shutters py clk temp lum s \<noteq>
           open_shutters_if_closed (report_cycle py clk temp lum s) \<and>
         (fst (automatic_shutters py clk temp lum s) = Inr () \<longrightarrow>
            shutters_state (snd (automatic_shutters py clk temp lum s)) = SHUTTERS_CLOSED)"
proof -
  have r: "last_closed (report_cycle py clk temp lum s) = Some t"
    using assms(1) by (simp add: report_cycle_def log_fn_def)
  have eq: "automatic_shutters py clk temp lum s =
           close_shutters_if_opened (t_close clk) (report_cycle py clk temp lum s)"
    using r assms(2) by (simp add: automatic_shutters_def Let_def)
  show ?thesis
    using eq close_differs_from_open close_result_closed by simp
qed

theorem hysteresis_closes_witness:
  "last_closed (fresh_unit\<lparr>shutters_state := SHUTTERS_CLOSED, last_closed := Some 9000\<rparr>) =
     Some 9000 \<and>
   t_hysteresis noon - 3600 < 9000 \<and>
   get_day_time (tm_hour noon) 500
     (fresh_unit\<lparr>shutters_state := SHUTTERS_CLOSED, last_closed := Some 9000\<rparr>) =
     Some PLAIN_DAY \<and>
   automatic_shutters sample_builtins noon 20 500
     (fresh_unit\<lparr>shutters_state := SHUTTERS_CLOSED, last_closed := Some 9000\<rparr>) =
   close_shutters_if_opened (t_close noon)
     (report_cycle sample_builtins noon 20 500
        (fresh_unit\<lparr>shutters_state := SHUTTERS_CLOSED, last_closed := Some 9000\<rparr>)) \<and>
   shutters_state (snd (automatic_shutters sample_builtins noon 20 500
     (fresh_unit\<lparr>shutters_state := SHUTTERS_CLOSED, last_closed := Some 9000\<rparr>))) =
     SHUTTERS_CLOSED"
  using hysteresis_closes
     [of "fresh_unit\<lparr>shutters_state := SHUTTERS_CLOSED, last_closed := Some 9000\<rparr>" 9000
         noon sample_builtins 20 500]
  by (simp add: fresh_unit_def assigned_attributes_def noon_def default_config_def
        get_day_time_def close_shutters_if_opened_def report_cycle_def log_fn_def)

text \<open>
  C6. When \<open>_get_day_time\<close> answers PLAIN_DAY, adaptation to the environment is on, the
  temperature is above the high threshold and the hour is within 4 hours of 13 plus
  \<open>time.daylight\<close>, \<open>_automatic_shutters\<close> does what the close path does, whatever
  \<open>_last_closed\<close> holds and even when that attribute is absent: the test on it is not
  reached. In particular with sunrise 7, sunset 19, thresholds 100, 0 and 30, adaptation on,
  hour 12, 35 degrees, 500 lux and the shutters recorded open, for \<open>time.daylight\<close> 0 or 1:
  the moment is PLAIN_DAY, the close path is taken, and when the peer lets the close command
  pass the shutters are recorded closed.
\<close>

theorem hot_midday_closes:
  "(get_day_time (tm_hour clk) lum s = Some PLAIN_DAY \<and>
    adapt_with_env_in_plain_day (config s) \<and>
    real_of_int (high_temp_threshold (config s)) < temp \<and>
    \<bar>tm_hour clk - (13 + daylight clk)\<bar> \<le> 4 \<longrightarrow>
      automatic_shutters py clk temp lum s =
        close_shutters_if_opened (t_close clk) (report_cycle py clk temp lum s) \<and>
      automatic_shutters py clk temp lum s \<noteq>
        open_shutters_if_closed (report_cycle py clk temp lum s) \<and>
      (fst (automatic_shutters py clk temp lum s) = Inr () \<longrightarrow>
         shutters_state (snd (automatic_shutters py clk temp lum s)) = SHUTTERS_CLOSED)) \<and>
   (sunrise_hour (config s') = 7 \<and> sunset_hour (config s') = 19 \<and>
    low_light_threshold (config s') = 100 \<and> low_temp_threshold (config s') = 0 \<and>
    high_temp_threshold (config s') = 30 \<and> adapt_with_env_in_plain_day (config s') \<and>
    shutters_state s' = SHUTTERS_OPENED \<and>
    tm_hour clk' = 12 \<and> (daylight clk' = 0 \<or> daylight clk' = 1) \<longrightarrow>
      get_day_time 12 500 s' = Some PLAIN_DAY \<and>
      automatic_shutters py clk' 35 500 s' =
        close_shutters_if_opened (t_close clk') (report_cycle py clk' 35 500 s') \<and>
      (compatible_with_AS (arduino s') \<and> no_response (arduino s') \<longrightarrow>
         fst (automatic_shutters py clk' 35 500 s') = Inr () \<and>
         shutters_state (snd (automatic_shutters py clk' 35 500 s')) = SHUTTERS_CLOSED \<and>
         last_closed (snd (automatic_shutters py clk' 35 500 s')) = Some (t_close clk')))"
proof -
  have general: "automatic_shutters py clk temp lum s =
        close_shutters_if_opened (t_close clk) (report_cycle py clk temp lum s)"
    if "get_day_time (tm_hour clk) lum s = Some PLAIN_DAY"
       "adapt_with_env_in_plain_day (config s)"
       "real_of_int (high_temp_threshold (config s)) < temp"
       "\<bar>tm_hour clk - (13 + daylight clk)\<bar> \<le> 4"
    for clk lum s temp
    using that by (simp add: automatic_shutters_def report_cycle_def log_fn_def Let_def)
  have part1: "get_day_time (tm_hour clk) lum s = Some PLAIN_DAY \<and>
    adapt_with_env_in_plain_day (config s) \<and>
    real_of_int (high_temp_threshold (config s)) < temp \<and>
    \<bar>tm_hour clk - (13 + daylight clk)\<bar> \<le> 4 \<longrightarrow>
      automatic_shutters py clk temp lum s =
        close_shutters_if_opened (t_close clk) (report_cycle py clk temp lum s) \<and>
      automatic_shutters py clk temp lum s \<noteq>
        open_shutters_if_closed (report_cycle py clk temp lum s) \<and>
      (fst (automatic_shutters py clk temp lum s) = Inr () \<longrightarrow>
         shutters_state (snd (automatic_shutters py clk temp lum s)) = SHUTTERS_CLOSED)"
    using general [of clk lum s temp] close_differs_from_open close_result_closed by simp
  have part2: "get_day_time 12 500 s' = Some PLAIN_DAY \<and>
      automatic_shutters py clk' 35 500 s' =
        close_shutters_if_opened (t_close clk') (report_cycle py clk' 35 500 s') \<and>
      (compatible_with_AS (arduino s') \<and> no_response (arduino s') \<longrightarrow>
         fst (automatic_shutters py clk' 35 500 s') = Inr () \<and>
         shutters_state (snd (automatic_shutters py clk' 35 500 s')) = SHUTTERS_CLOSED \<and>
         last_closed (snd (automatic_shutters py clk' 35 500 s')) = Some (t_close clk'))"
    if h: "sunrise_hour (config s') = 7" "sunset_hour (config s') = 19"
       "low_light_threshold (config s') = 100" "low_temp_threshold (config s') = 0"
       "high_temp_threshold (config s') = 30" "adapt_with_env_in_plain_day (config s')"
       "shutters_state s' = SHUTTERS_OPENED"
       "tm_hour clk' = 12" "daylight clk' = 0 \<or> daylight clk' = 1"
  proof -
    have day: "get_day_time 12 500 s' = Some PLAIN_DAY"
      using h by (simp add: get_day_time_def)
    have mid: "\<bar>tm_hour clk' - (13 + daylight clk')\<bar> \<le> 4"
      using h by auto
    have eq: "automatic_shutters py clk' 35 500 s' =
        close_shutters_if_opened (t_close clk') (report_cycle py clk' 35 500 s')"
      using general [of clk' 500 s' 35] day mid h by simp
    have st: "shutters_state (report_cycle py clk' 35 500 s') \<noteq> SHUTTERS_CLOSED"
             "arduino (report_cycle py clk' 35 500 s') = arduino s'"
      using h by (simp_all add: report_cycle_def log_fn_def)
    show ?thesis
      using day eq st close_silent [of "report_cycle py clk' 35 500 s'" "t_close clk'"]
      by simp
  qed
  show ?thesis using part1 part2 by blast
qed

theorem hot_midday_closes_witness:
  "get_day_time (tm_hour noon) 500 fresh_unit = Some PLAIN_DAY \<and>
   adapt_with_env_in_plain_day (config fresh_unit) \<and>
   real_of_int (high_temp_threshold (config fresh_unit)) < 35 \<and>
   \<bar>tm_hour noon - (13 + daylight noon)\<bar> \<le> 4 \<and>
   sunrise_hour (config fresh_unit) = 7 \<and> sunset_hour (config fresh_unit) = 19 \<and>
   low_light_threshold (config fresh_unit) = 100 \<and> low_temp_threshold (config fresh_unit) = 0 \<and>
   high_temp_threshold (config fresh_unit) = 30 \<and>
   shutters_state fresh_unit = SHUTTERS_OPENED \<and> tm_hour noon = 12 \<and> daylight noon = 0 \<and>
   compatible_with_AS (arduino fresh_unit) \<and> no_response (arduino fresh_unit) \<and>
   automatic_shutters sample_builtins noon 35 500 fresh_unit =
     close_shutters_if_opened (t_close noon) (report_cycle sample_builtins noon 35 500 fresh_unit) \<and>
   automatic_shutters sample_builtins noon 35 500 fresh_unit \<noteq>
     open_shutters_if_closed (report_cycle sample_builtins noon 35 500 fresh_unit) \<and>
   fst (automatic_shutters sample_builtins noon 35 500 fresh_unit) = Inr () \<and>
   shutters_state (snd (automatic_shutters sample_builtins noon 35 500 fresh_unit)) =
     SHUTTERS_CLOSED \<and>
   last_closed (snd (automatic_shutters sample_builtins noon 35 500 fresh_unit)) =
     Some (t_close noon)"
proof -
  have pre: "get_day_time (tm_hour noon) 500 fresh_unit = Some PLAIN_DAY"
     "adapt_with_env_in_plain_day (config fresh_unit)"
     "real_of_int (high_temp_threshold (config fresh_unit)) < 35"
     "\<bar>tm_hour noon - (13 + daylight noon)\<bar> \<le> 4"
     "sunrise_hour (config fresh_unit) = 7" "sunset_hour (config fresh_unit) = 19"
     "low_light_threshold (config fresh_unit) = 100" "low_temp_threshold (config fresh_unit) = 0"
     "high_temp_threshold (config fresh_unit) = 30"
     "shutters_state fresh_unit = SHUTTERS_OPENED" "tm_hour noon = 12" "daylight noon = 0"
     "compatible_with_AS (arduino fresh_unit)" "no_response (arduino fresh_unit)"
    by (simp_all add: fresh_unit_def assigned_attributes_def default_config_def noon_def
          quiet_link_def no_response_def get_day_time_def)
  show ?thesis
    using pre hot_midday_closes [of noon 500 fresh_unit 35 sample_builtins fresh_unit noon]
    by blast
qed

text \<open>
  C3, as the code has it. An actuation that raises leaves the recorded state and both
  last-closed attributes as they were. An actuation during which the peer sends no line
  before the timeout does not raise, since \<open>ask\<close> expects no field there: the recorded
  state becomes the target, and a close that was not already recorded stores the clock
  reading in \<open>_last_closed\<close>.
\<close>

theorem state_updated_when_ask_returns:
  "(fst (close_shutters_if_opened now s) = Inl e \<longrightarrow>
      shutters_state (snd (close_shutters_if_opened now s)) = shutters_state s \<and>
      last_closed (snd (close_shutters_if_opened now s)) = last_closed s \<and>
      priv_last_closed (snd (close_shutters_if_opened now s)) = priv_last_closed s) \<and>
   (fst (open_shutters_if_closed s) = Inl e \<longrightarrow>
      shutters_state (snd (open_shutters_if_closed s)) = shutters_state s \<and>
      last_closed (snd (open_shutters_if_closed s)) = last_closed s \<and>
      priv_last_closed (snd (open_shutters_if_closed s)) = priv_last_closed s) \<and>
   (compatible_with_AS (arduino s) \<and> no_response (arduino s) \<longrightarrow>
      fst (close_shutters_if_opened now s) = Inr () \<and>
      shutters_state (snd (close_shutters_if_opened now s)) = SHUTTERS_CLOSED \<and>
      (shutters_state s \<noteq> SHUTTERS_CLOSED \<longrightarrow>
         last_closed (snd (close_shutters_if_opened now s)) = Some now) \<and>
      fst (open_shutters_if_closed s) = Inr () \<and>
      shutters_state (snd (open_shutters_if_closed s)) = SHUTTERS_OPENED \<and>
      last_closed (snd (open_shutters_if_closed s)) = last_closed s)"
  using close_raise_keeps [of now s e] open_raise_keeps [of s e]
        close_silent [of s now] open_silent [of s]
  by blast

theorem state_updated_when_ask_returns_witness:
  "fst (close_shutters_if_opened 5000 (fresh_unit\<lparr>arduino := answering_link\<rparr>)) =
     Inl (ValueError ''Invalid value received from arduino: OK'') \<and>
   shutters_state (snd (close_shutters_if_opened 5000 (fresh_unit\<lparr>arduino := answering_link\<rparr>))) =
     SHUTTERS_OPENED \<and>
   last_closed (snd (close_shutters_if_opened 5000 (fresh_unit\<lparr>arduino := answering_link\<rparr>))) =
     None \<and>
   fst (open_shutters_if_closed
          (fresh_unit\<lparr>arduino := answering_link, shutters_state := SHUTTERS_CLOSED\<rparr>)) =
     Inl (ValueError ''Invalid value received from arduino: OK'') \<and>
   shutters_state (snd (open_shutters_if_closed
          (fresh_unit\<lparr>arduino := answering_link, shutters_state := SHUTTERS_CLOSED\<rparr>))) =
     SHUTTERS_CLOSED \<and>
   compatible_with_AS (arduino fresh_unit) \<and> no_response (arduino fresh_unit) \<and>
   shutters_state fresh_unit \<noteq> SHUTTERS_CLOSED \<and>
   fst (close_shutters_if_opened 5000 fresh_unit) = Inr () \<and>
   shutters_state (snd (close_shutters_if_opened 5000 fresh_unit)) = SHUTTERS_CLOSED \<and>
   last_closed (snd (close_shutters_if_opened 5000 fresh_unit)) = Some 5000"
proof -
  have raised_close:
    "fst (close_shutters_if_opened 5000 (fresh_unit\<lparr>arduino := answering_link\<rparr>)) =
       Inl (ValueError ''Invalid value received from arduino: OK'')"
    by (simp add: fresh_unit_def assigned_attributes_def answering_link_def
          close_shutters_if_opened_def log_fn_def ask_def send_def read_line_def
          serial_read_until_def ARDUINO_CLOSE_SHUTTERS_def str_int_opcodes ascii_def CRLF_def
          Let_def)
  have raised_open:
    "fst (open_shutters_if_closed
            (fresh_unit\<lparr>arduino := answering_link, shutters_state := SHUTTERS_CLOSED\<rparr>)) =
       Inl (ValueError ''Invalid value received from arduino: OK'')"
    by (simp add: fresh_unit_def assigned_attributes_def answering_link_def
          open_shutters_if_closed_def log_fn_def ask_def send_def read_line_def
          serial_read_until_def ARDUINO_OPEN_SHUTTERS_def str_int_opcodes ascii_def CRLF_def
          Let_def)
  have quiet: "compatible_with_AS (arduino fresh_unit) \<and> no_response (arduino fresh_unit) \<and>
               shutters_state fresh_unit \<noteq> SHUTTERS_CLOSED"
    by (simp add: fresh_unit_def assigned_attributes_def quiet_link_def no_response_def)
  show ?thesis
    using raised_close raised_open quiet
      state_updated_when_ask_returns
        [of 5000 "fresh_unit\<lparr>arduino := answering_link\<rparr>"
            "ValueError ''Invalid value received from arduino: OK''"]
      state_updated_when_ask_returns
        [of 5000 "fresh_unit\<lparr>arduino := answering_link, shutters_state := SHUTTERS_CLOSED\<rparr>"
            "ValueError ''Invalid value received from arduino: OK''"]
      state_updated_when_ask_returns [of 5000 fresh_unit e]
    by (simp add: fresh_unit_def assigned_attributes_def)
qed

text \<open>
  C3 in the words of the specification (no change of the recorded state or of the
  last-closed time while the peer stays silent) fails: with the shutters recorded open and a
  peer that never answers, the close actuation changes both.
\<close>

theorem silent_peer_counterexample:
  "no_response (arduino fresh_unit) \<and>
   shutters_state (snd (close_shutters_if_opened 5000 fresh_unit)) \<noteq> shutters_state fresh_unit \<and>
   last_closed (snd (close_shutters_if_opened 5000 fresh_unit)) \<noteq> last_closed fresh_unit"
  by (simp add: fresh_unit_def quiet_link_def assigned_attributes_def no_response_def
        close_shutters_if_opened_def log_fn_def ask_def send_def read_line_def
        serial_read_until_def ARDUINO_CLOSE_SHUTTERS_def str_int_opcodes ascii_def CRLF_def
        Let_def)

section \<open>Reading the environment: results\<close>

text \<open>
  C8. The peer answers the environment query with a line of two fields that \<open>float\<close> reads as
  the temperature and a luminosity that is not negative. Then \<open>_check_luminosity_and_temp\<close>
  raises ValueError (an invalid temperature) exactly when the temperature lies between -40
  and 60, both included, and returns the two readings when it lies outside: the test is the
  reverse of a range check.
\<close>

theorem temperature_check_inverted:
  assumes "compatible_with_AS (arduino s)"
    and "rx (arduino s) = (a0 @ '';'' @ a1 @ CRLF) # rest"
    and "CHR '';'' \<notin> set a0" and "CHR '';'' \<notin> set a1"
    and "ascii a0" and "ascii a1" and "a0 \<noteq> ''ERROR''"
    and "float_of py a0 = Some temp" and "float_of py a1 = Some lum" and "0 \<le> lum"
  shows "fst (check_luminosity_and_temp py s) =
           (if - 40 \<le> temp \<and> temp \<le> 60
            then Inl (ValueError ''Arduino returned an invalid temperature.'')
            else Inr (temp, lum))"
proof -
  have raw: "ascii (a0 @ '';'' @ a1 @ CRLF)"
    using assms(5,6) by (simp add: ascii_def CRLF_def)
  have dr: "drop (length (a0 @ '';'' @ a1 @ CRLF) - 2) (a0 @ '';'' @ a1 @ CRLF) = CRLF"
           "take (length (a0 @ '';'' @ a1 @ CRLF) - 2) (a0 @ '';'' @ a1 @ CRLF) = a0 @ '';'' @ a1"
    by (simp_all add: CRLF_def)
  have a: "ask (str_int ARDUINO_GET_ENV) 2 [] (arduino s) =
             (Inr (Info [a0, a1]), (arduino s)\<lparr>tx := tx (arduino s) @ [str_int ARDUINO_GET_ENV], rx := rest\<rparr>)"
    using assms(1,2,7) ascii_opcodes(3) raw dr split_two_fields [OF assms(3,4)]
    by (simp add: ask_def send_def read_line_def serial_read_until_def Let_def del: append_assoc)
  show ?thesis
    using assms(8,9,10) by (simp add: check_luminosity_and_temp_def a Let_def)
qed

theorem temperature_check_inverted_witness:
  "fst (check_luminosity_and_temp sample_builtins
          (fresh_unit\<lparr>arduino := quiet_link\<lparr>rx := [''21;430'' @ CRLF]\<rparr>\<rparr>)) =
     Inl (ValueError ''Arduino returned an invalid temperature.'') \<and>
   fst (check_luminosity_and_temp sample_builtins
          (fresh_unit\<lparr>arduino := quiet_link\<lparr>rx := [''70;430'' @ CRLF]\<rparr>\<rparr>)) = Inr (70, 430)"
proof -
  have ints: "py_int ''21'' = Some 21" "py_int ''70'' = Some 70" "py_int ''430'' = Some 430"
    by code_simp+
  have pre: "compatible_with_AS (arduino (fresh_unit\<lparr>arduino := quiet_link\<lparr>rx := [r]\<rparr>\<rparr>))"
            "rx (arduino (fresh_unit\<lparr>arduino := quiet_link\<lparr>rx := [r]\<rparr>\<rparr>)) = r # []"
            "ascii ''21''" "ascii ''70''" "ascii ''430''"
            "float_of sample_builtins ''21'' = Some 21"
            "float_of sample_builtins ''70'' = Some 70"
            "float_of sample_builtins ''430'' = Some 430" for r
    by (simp_all add: quiet_link_def ascii_def sample_builtins_def ints)
  show ?thesis
    using temperature_check_inverted
            [of "fresh_unit\<lparr>arduino := quiet_link\<lparr>rx := [''21;430'' @ CRLF]\<rparr>\<rparr>"
                "''21''" "''430''" "[]" sample_builtins 21 430]
          temperature_check_inverted
            [of "fresh_unit\<lparr>arduino := quiet_link\<lparr>rx := [''70;430'' @ CRLF]\<rparr>\<rparr>"
                "''70''" "''430''" "[]" sample_builtins 70 430]
          pre
    by simp
qed

section \<open>Commands: results\<close>

lemma int8: "py_int ''8'' = Some 8" "str_int 8 = ''8''" by code_simp+

text \<open>
  The hours of the configuration stay where the options of \<open>set_settings\<close> allow them:
  whatever the command, a sunrise hour of at most 9 and a sunset hour of at least 14 remain
  so, as they are in the default configuration.
\<close>

lemma default_config_hours:
  "sunrise_hour default_config \<le> 9 \<and> 14 \<le> sunset_hour default_config"
  by (simp add: default_config_def)

lemma parse_args_settings:
  "parse_args (c # rest) = Inr (command, KW_settings st) \<Longrightarrow>
     parse_set_settings rest no_settings = Inr st"
  by (auto simp: parse_args_def refuse_def split: if_splits sum.splits list.splits)

lemma set_option_hours:
  assumes "set_option opt v ns = Inr ns'"
    and "\<forall>x. arg_sunrise_hour ns = Some x \<longrightarrow> x \<le> 9"
    and "\<forall>x. arg_sunset_hour ns = Some x \<longrightarrow> 14 \<le> x"
  shows "(\<forall>x. arg_sunrise_hour ns' = Some x \<longrightarrow> x \<le> 9) \<and>
         (\<forall>x. arg_sunset_hour ns' = Some x \<longrightarrow> 14 \<le> x)"
  using assms
  by (auto simp: set_option_def converted_def refuse_def int_in_def
        split: if_splits sum.splits option.splits)

lemma parse_set_settings_hours:
  "parse_set_settings toks ns = Inr ns' \<Longrightarrow>
     \<forall>x. arg_sunrise_hour ns = Some x \<longrightarrow> x \<le> 9 \<Longrightarrow>
     \<forall>x. arg_sunset_hour ns = Some x \<longrightarrow> 14 \<le> x \<Longrightarrow>
     (\<forall>x. arg_sunrise_hour ns' = Some x \<longrightarrow> x \<le> 9) \<and>
     (\<forall>x. arg_sunset_hour ns' = Some x \<longrightarrow> 14 \<le> x)"
proof (induction toks ns rule: parse_set_settings.induct)
  case (1 ns)
  then show ?case by simp
next
  case (2 opt ns)
  then show ?case by (simp add: refuse_def split: if_splits)
next
  case (3 opt v rest ns)
  from 3(2) obtain ns1 where s1: "set_option opt v ns = Inr ns1"
    and rest: "parse_set_settings rest ns1 = Inr ns'"
    by (auto split: sum.splits)
  have "(\<forall>x. arg_sunrise_hour ns1 = Some x \<longrightarrow> x \<le> 9) \<and>
        (\<forall>x. arg_sunset_hour ns1 = Some x \<longrightarrow> 14 \<le> x)"
    using set_option_hours [OF s1 3(3) 3(4)] .
  then show ?case using 3(1) [OF s1 rest] by blast
qed

lemma cmd_set_settings_hours:
  assumes "\<forall>x. arg_sunrise_hour st = Some x \<longrightarrow> x \<le> 9"
    and "\<forall>x. arg_sunset_hour st = Some x \<longrightarrow> 14 \<le> x"
    and "sunrise_hour (config s) \<le> 9" and "14 \<le> sunset_hour (config s)"
  shows "sunrise_hour (config (cmd_set_settings st s)) \<le> 9 \<and>
         14 \<le> sunset_hour (config (cmd_set_settings st s))"
  using assms
  by (auto simp: cmd_set_settings_def assign_def log_fn_def Let_def split: option.splits)

lemma parse_command_keeps_hours:
  assumes "sunrise_hour (config s) \<le> 9" and "14 \<le> sunset_hour (config s)"
  shows "sunrise_hour (config (snd (parse_command cmd s))) \<le> 9 \<and>
         14 \<le> sunset_hour (config (snd (parse_command cmd s)))"
proof (cases "parse_args (split_py CHR '' '' cmd)")
  case (Inl e)
  then show ?thesis using assms
    by (cases e) (simp_all add: parse_command_def log_fn_def Let_def)
next
  case (Inr r)
  obtain command args where r: "r = (command, args)" by (cases r)
  show ?thesis
  proof (cases args)
    case (KW_settings st)
    from Inr r KW_settings obtain c rest where
      "split_py CHR '' '' cmd = c # rest"
      by (cases "split_py CHR '' '' cmd") (auto simp: parse_args_def)
    with Inr r KW_settings have "parse_set_settings rest no_settings = Inr st"
      using parse_args_settings by simp
    then have ok: "(\<forall>x. arg_sunrise_hour st = Some x \<longrightarrow> x \<le> 9) \<and>
                   (\<forall>x. arg_sunset_hour st = Some x \<longrightarrow> 14 \<le> x)"
      by (rule parse_set_settings_hours) (simp_all add: no_settings_def)
    have "sunrise_hour (config (cmd_set_settings st s')) \<le> 9 \<and>
          14 \<le> sunset_hour (config (cmd_set_settings st s'))"
      if "config s' = config s" for s'
      using cmd_set_settings_hours [of st s'] ok assms that by simp
    then show ?thesis using Inr r KW_settings assms
      by (auto simp: parse_command_def getattr_call_def log_fn_def Let_def
            cmd_shutdown_def cmd_force_update_def split: option.splits)
  next
    case KW_none
    then show ?thesis using Inr r assms
      by (auto simp: parse_command_def getattr_call_def log_fn_def Let_def
            cmd_shutdown_def cmd_force_update_def split: option.splits)
  next
    case (KW_name n)
    then show ?thesis using Inr r assms
      by (auto simp: parse_command_def getattr_call_def log_fn_def Let_def
            cmd_log_setting_def split: option.splits)
  qed
qed

text \<open>
  \<open>_cmd_log_setting\<close>, the method written for the command, would report the value: called
  after the \<open>set_settings\<close> command it logs \<open>sunrise_hour is 8\<close>.
\<close>

lemma handler_would_report:
  "fst (cmd_log_setting ''sunrise_hour''
          (snd (parse_command ''set_settings --sunrise_hour 8'' s))) = Inr () \<and>
   last (logged (snd (cmd_log_setting ''sunrise_hour''
          (snd (parse_command ''set_settings --sunrise_hour 8'' s))))) =
     (''sunrise_hour is 8'', ''core/cmd'', ''status'')"
  by (simp add: parse_command_def parse_args_def set_option_def converted_def int_in_def int8
        no_settings_def getattr_call_def cmd_set_settings_def assign_def log_fn_def
        config_keys_def Let_def cmd_log_setting_def config_str_def)

text \<open>
  C7, at the commands \<open>set_settings --sunrise_hour 8\<close> and \<open>get_setting sunrise_hour\<close> run
  in this order from any state. The first command stores 8 as sunrise hour and leaves every
  other field of the configuration as it was. The second is parsed, and \<open>parse_command\<close> then looks up the method \<open>_cmd_get_setting\<close>: the class
  has none (the method for this command is \<open>_cmd_log_setting\<close>), so AttributeError leaves
  \<open>parse_command\<close> and the log receives three lines, none of which reports the value.
\<close>

theorem get_setting_has_no_handler:
  "fst (run_commands [''set_settings --sunrise_hour 8'', ''get_setting sunrise_hour''] s) =
     Inl (AttributeError ''_cmd_get_setting'') \<and>
   config (snd (run_commands
                  [''set_settings --sunrise_hour 8'', ''get_setting sunrise_hour''] s)) =
     (config s)\<lparr>sunrise_hour := 8\<rparr> \<and>
   map fst (drop (length (logged s))
              (logged (snd (run_commands
                 [''set_settings --sunrise_hour 8'', ''get_setting sunrise_hour''] s)))) =
     [''running function _cmd_set_settings with '' @ dq
        @ repr_kwargs (KW_settings (no_settings\<lparr>arg_sunrise_hour := Some 8\<rparr>)) @ dq
        @ '' for kwargs'',
      ''sunrise_hour now has 8 is now'',
      ''running function _cmd_get_setting with '' @ dq
        @ repr_kwargs (KW_name ''sunrise_hour'') @ dq @ '' for kwargs'']"
  by (simp add: parse_command_def parse_args_def set_option_def converted_def int_in_def int8
        no_settings_def getattr_call_def cmd_set_settings_def assign_def log_fn_def
        config_keys_def Let_def)

section \<open>Initialisation: results\<close>

text \<open>
  C2, at the default suffix and for any other arguments. The File communicator leaves the
  abstract method \<open>get_cmds\<close> without a definition (its body defines \<open>get_cmd\<close>), so its
  instantiation raises TypeError, outside the \<open>try\<close> of \<open>__init__\<close>: the exception leaves
  the constructor. And \<open>_init_commands\<close> indexes \<open>subparsers\<close> with \<open>set_setting\<close>, a key
  the dict does not have (it has \<open>set_settings\<close>): KeyError, whether or not the
  configuration exists by then.
\<close>

theorem initialisation_fails:
  "abstractmethods CentralUnitCommunicator CentralUnitCommunicatorFile = [''get_cmds''] \<and>
   CentralUnit_init initialisation_command ''File'' communicator_args incoming now =
     Unhandled (TypeError ''Can't instantiate abstract class CentralUnitCommunicatorFile'') \<and>
   map_of subparsers ''set_setting'' = None \<and>
   init_commands cfg = Inl (KeyError ''set_setting'')"
  by (simp add: abstractmethods_def CentralUnitCommunicator_def CentralUnitCommunicatorFile_def
        CentralUnit_init_def suffix_matches_def init_communicator_def import_class_def
        subparsers_def init_commands_def add_argument_calls_def)

text \<open>
  C9, at the object as \<open>_init_attributes\<close> fills it: the attribute \<open>__last_closed\<close> is 0 and
  \<open>_last_closed\<close> does not exist. In plain day, when neither the cold nor the heat test
  applies (noon with 20 degrees, or 8 o'clock with 70 degrees), \<open>_automatic_shutters\<close>
  reaches the hysteresis test, reads \<open>_last_closed\<close>, and raises AttributeError.
\<close>

theorem first_cycle_attribute_error:
  "last_closed (assigned_attributes now a) = None \<and>
   priv_last_closed (assigned_attributes now a) = 0 \<and>
   fst (automatic_shutters py
          \<lparr>tm_hour = 12, daylight = 0, t_elapsed = t1, t_hysteresis = t2, t_close = t3,
           t_checked = t4\<rparr> 20 500 (assigned_attributes now a)) =
     Inl (AttributeError ''_last_closed'') \<and>
   fst (automatic_shutters py
          \<lparr>tm_hour = 8, daylight = 1, t_elapsed = t1, t_hysteresis = t2, t_close = t3,
           t_checked = t4\<rparr> 70 500 (assigned_attributes now a)) =
     Inl (AttributeError ''_last_closed'')"
  by (simp add: automatic_shutters_def assigned_attributes_def default_config_def
        get_day_time_def report_cycle_def log_fn_def Let_def)

text \<open>
  The same on the way through \<open>_update_shutters\<close>, in automatic mode with the peer
  answering \<open>70;500\<close> to the environment query (70 degrees passes the check of
  \<open>_check_luminosity_and_temp\<close>, 20 degrees would not).
\<close>

lemma first_cycle_through_update:
  "fst (update_shutters sample_builtins (noon\<lparr>tm_hour := 8\<rparr>)
          (fresh_unit\<lparr>arduino := quiet_link\<lparr>rx := [''70;500'' @ CRLF]\<rparr>\<rparr>)) =
     Inl (AttributeError ''_last_closed'')"
proof -
  have ints: "py_int ''70'' = Some 70" "py_int ''500'' = Some 500"
    by code_simp+
  show ?thesis
    by (simp add: update_shutters_def fresh_unit_def assigned_attributes_def default_config_def
        USER_MODE_AUTO_def USER_MODE_OPEN_def USER_MODE_CLOSE_def noon_def quiet_link_def
        check_luminosity_and_temp_def ask_def send_def read_line_def serial_read_until_def
        ARDUINO_GET_ENV_def str_int_opcodes ascii_def CRLF_def sample_builtins_def ints
        automatic_shutters_def get_day_time_def report_cycle_def log_fn_def Let_def)
qed

end
